theory Spec2Isabelle
  imports Complex_Main
begin

section \<open>The smart-farm controller of smartfarm.py\<close>

text \<open>
  Python floats are modelled as \<^typ>\<open>real\<close>: finite values with exact arithmetic
  (no NaN, no infinity, no binary rounding). Console output is modelled only where it
  announces an actuator transition; the wall clock and the random source are taken as
  arguments of the operations that read them.
\<close>

subsection \<open>Data model\<close>

text \<open>The dataclass \<open>SensorData\<close>.\<close>

record SensorData =
  timestamp :: string
  temperature :: real
  humidity :: real
  fan_status :: bool
  pump_status :: bool

text \<open>The attributes of a \<open>SmartFarmController\<close> instance.\<close>

record SmartFarmController =
  temp_threshold :: real
  humidity_threshold :: real
  fan_running :: bool
  pump_running :: bool
  data_log :: "SensorData list"
  current_temp :: real
  current_humidity :: real

text \<open>The four lines that \<open>control_fan\<close> and \<open>control_pump\<close> print on a transition.\<close>

datatype announcement = Fan_ON | Fan_OFF | Pump_ON | Pump_OFF

text \<open>\<open>SmartFarmController.__init__\<close> (its banner is not modelled).\<close>

definition init :: SmartFarmController where
  "init = \<lparr>temp_threshold = 30, humidity_threshold = 40,
            fan_running = False, pump_running = False,
            data_log = [],
            current_temp = 25, current_humidity = 45\<rparr>"

subsection \<open>Actuators\<close>

definition control_fan :: "bool \<Rightarrow> SmartFarmController \<Rightarrow> announcement list \<times> SmartFarmController" where
  "control_fan turn_on s =
     (if turn_on \<and> \<not> fan_running s then ([Fan_ON], s\<lparr>fan_running := True\<rparr>)
      else if \<not> turn_on \<and> fan_running s then ([Fan_OFF], s\<lparr>fan_running := False\<rparr>)
      else ([], s))"

definition control_pump :: "bool \<Rightarrow> SmartFarmController \<Rightarrow> announcement list \<times> SmartFarmController" where
  "control_pump turn_on s =
     (if turn_on \<and> \<not> pump_running s then ([Pump_ON], s\<lparr>pump_running := True\<rparr>)
      else if \<not> turn_on \<and> pump_running s then ([Pump_OFF], s\<lparr>pump_running := False\<rparr>)
      else ([], s))"

subsection \<open>Decisions\<close>

text \<open>
  \<open>make_control_decisions\<close>: the temperature rule, then the humidity rule. The
  hysteresis widths are the literals \<open>2\<close> and \<open>10\<close> of the source.
\<close>

definition make_control_decisions ::
    "real \<Rightarrow> real \<Rightarrow> SmartFarmController \<Rightarrow> announcement list \<times> SmartFarmController" where
  "make_control_decisions temp humid s =
     (let (out1, s1) =
            (if temp > temp_threshold s then control_fan True s
             else if temp < temp_threshold s - 2 then control_fan False s
             else ([], s));
          (out2, s2) =
            (if humid < humidity_threshold s1 then control_pump True s1
             else if humid > humidity_threshold s1 + 10 then control_pump False s1
             else ([], s1))
      in (out1 @ out2, s2))"


subsection \<open>History log\<close>

text \<open>
  \<open>log_data\<close>: append one entry carrying the current actuator flags, then drop the
  oldest entry when the log has grown beyond 100. The timestamp read from the clock is
  the argument \<open>now\<close>.
\<close>

definition log_data :: "string \<Rightarrow> real \<Rightarrow> real \<Rightarrow> SmartFarmController \<Rightarrow> SmartFarmController" where
  "log_data now temp humid s =
     (let data = \<lparr>timestamp = now, temperature = temp, humidity = humid,
                  fan_status = fan_running s, pump_status = pump_running s\<rparr>;
          appended = data_log s @ [data]
      in s\<lparr>data_log := (if length appended > 100 then tl appended else appended)\<rparr>)"

text \<open>
  Logging an arbitrary entry \<open>e\<close>: the actuators are first commanded to the flags of
  \<open>e\<close>, then \<open>log_data\<close> is called with its timestamp and reading.
\<close>

definition record_entry :: "SensorData \<Rightarrow> SmartFarmController \<Rightarrow> SmartFarmController" where
  "record_entry e s =
     log_data (timestamp e) (temperature e) (humidity e)
       (snd (control_pump (pump_status e) (snd (control_fan (fan_status e) s))))"

subsection \<open>Statistics\<close>

datatype py_error = ValueError | ZeroDivisionError

text \<open>The values of the statistics dictionary: floats and ints.\<close>

datatype py_number = PyFloat real | PyInt int

definition and_then :: "py_error + 'a \<Rightarrow> ('a \<Rightarrow> py_error + 'b) \<Rightarrow> py_error + 'b" where
  "and_then r f = (case r of Inl e \<Rightarrow> Inl e | Inr v \<Rightarrow> f v)"

text \<open>The builtins \<open>sum\<close>, \<open>max\<close>, \<open>min\<close> and \<open>/\<close>, with the errors they raise.\<close>

definition py_sum :: "'a::monoid_add list \<Rightarrow> 'a" where
  "py_sum xs = fold (\<lambda>x acc. acc + x) xs 0"

definition py_max :: "real list \<Rightarrow> py_error + real" where
  "py_max xs = (case xs of [] \<Rightarrow> Inl ValueError
                | x # ys \<Rightarrow> Inr (fold (\<lambda>y m. if y > m then y else m) ys x))"

definition py_min :: "real list \<Rightarrow> py_error + real" where
  "py_min xs = (case xs of [] \<Rightarrow> Inl ValueError
                | x # ys \<Rightarrow> Inr (fold (\<lambda>y m. if y < m then y else m) ys x))"

definition py_truediv :: "real \<Rightarrow> real \<Rightarrow> py_error + real" where
  "py_truediv a b = (if b = 0 then Inl ZeroDivisionError else Inr (a / b))"

text \<open>\<open>round(x, 1)\<close>: to the nearest tenth, a tie going to the even neighbour.\<close>

definition round_half_even :: "real \<Rightarrow> int" where
  "round_half_even x =
     (let f = \<lfloor>x\<rfloor>; d = x - of_int f
      in if d < 1 / 2 then f else if d > 1 / 2 then f + 1
         else if even f then f else f + 1)"

definition py_round1 :: "real \<Rightarrow> real" where
  "py_round1 x = of_int (round_half_even (x * 10)) / 10"

text \<open>\<open>get_statistics\<close>: the empty dictionary on an empty log, the nine statistics otherwise.\<close>

definition get_statistics :: "SmartFarmController \<Rightarrow> py_error + (string \<rightharpoonup> py_number)" where
  "get_statistics s =
     (if data_log s = [] then Inr Map.empty
      else
        (let temps = map temperature (data_log s);
             humids = map humidity (data_log s)
         in and_then (py_truediv (py_sum temps) (real (length temps))) (\<lambda>avg_temp.
            and_then (py_max temps) (\<lambda>max_temp.
            and_then (py_min temps) (\<lambda>min_temp.
            and_then (py_truediv (py_sum humids) (real (length humids))) (\<lambda>avg_humidity.
            and_then (py_max humids) (\<lambda>max_humidity.
            and_then (py_min humids) (\<lambda>min_humidity.
              Inr [''avg_temp'' \<mapsto> PyFloat (py_round1 avg_temp),
                   ''max_temp'' \<mapsto> PyFloat max_temp,
                   ''min_temp'' \<mapsto> PyFloat min_temp,
                   ''avg_humidity'' \<mapsto> PyFloat (py_round1 avg_humidity),
                   ''max_humidity'' \<mapsto> PyFloat max_humidity,
                   ''min_humidity'' \<mapsto> PyFloat min_humidity,
                   ''fan_runtime'' \<mapsto>
                      PyInt (py_sum (map (\<lambda>d. 1) (filter fan_status (data_log s)))),
                   ''pump_runtime'' \<mapsto>
                      PyInt (py_sum (map (\<lambda>d. 1) (filter pump_status (data_log s)))),
                   ''total_records'' \<mapsto> PyInt (int (length (data_log s)))]))))))))"

subsection \<open>Simulated sensors\<close>

text \<open>
  \<open>read_sensors\<close>: the two values drawn by \<open>random.uniform(-2, 3)\<close> and
  \<open>random.uniform(-5, 8)\<close> are the arguments \<open>draw_t\<close> and \<open>draw_h\<close>.
\<close>

definition read_sensors ::
    "real \<Rightarrow> real \<Rightarrow> SmartFarmController \<Rightarrow> (real \<times> real) \<times> SmartFarmController" where
  "read_sensors draw_t draw_h s =
     (let temp_variation = (if fan_running s then draw_t - 2 else draw_t);
          humidity_variation = (if pump_running s then draw_h + 5 else draw_h);
          s1 = s\<lparr>current_temp := current_temp s + temp_variation * 0.1\<rparr>;
          s2 = s1\<lparr>current_humidity := current_humidity s1 + humidity_variation * 0.1\<rparr>;
          s3 = s2\<lparr>current_temp := max 15 (min 45 (current_temp s2))\<rparr>;
          s4 = s3\<lparr>current_humidity := max 20 (min 90 (current_humidity s3))\<rparr>
      in ((py_round1 (current_temp s4), py_round1 (current_humidity s4)), s4))"

subsection \<open>Changing the settings\<close>

text \<open>
  What the operator typed at one prompt of menu entry 3, after \<open>strip()\<close>: nothing, a
  text that \<open>float()\<close> converts to the given value, or a text on which \<open>float()\<close>
  raises \<open>ValueError\<close>.
\<close>

datatype answer = Blank | Number real | Not_a_number

datatype settings_outcome = Settings_updated | Invalid_value

text \<open>
  The settings block of \<open>main\<close> (the \<open>try\<close> of lines 239-250): the temperature
  threshold is assigned before the humidity answer is converted, and a \<open>ValueError\<close>
  is caught and reported.
\<close>

definition change_settings ::
    "answer \<Rightarrow> answer \<Rightarrow> SmartFarmController \<Rightarrow> settings_outcome \<times> SmartFarmController" where
  "change_settings new_temp new_humidity s =
     (case (case new_temp of
              Blank \<Rightarrow> Inr s
            | Number v \<Rightarrow> Inr (s\<lparr>temp_threshold := v\<rparr>)
            | Not_a_number \<Rightarrow> Inl ValueError) of
        Inl e \<Rightarrow> (Invalid_value, s)
      | Inr s1 \<Rightarrow>
          (case new_humidity of
             Blank \<Rightarrow> (Settings_updated, s1)
           | Number v \<Rightarrow> (Settings_updated, s1\<lparr>humidity_threshold := v\<rparr>)
           | Not_a_number \<Rightarrow> (Invalid_value, s1)))"

subsection \<open>The specification's decision engine and threshold setter\<close>

text \<open>
  The specification describes thresholds with configurable hysteresis widths and a
  pure decision function over them. These definitions follow its words; the theorems
  below compare them with the controller above.
\<close>

record Thresholds =
  spec_temp_threshold :: real
  spec_temp_hysteresis :: real
  spec_humidity_threshold :: real
  spec_humidity_hysteresis :: real

record ActuatorState =
  fan_on :: bool
  pump_on :: bool





text \<open>The controller's actuator flags and thresholds, as the specification's values.\<close>

definition actuator_state :: "SmartFarmController \<Rightarrow> ActuatorState" where
  "actuator_state s = \<lparr>fan_on = fan_running s, pump_on = pump_running s\<rparr>"

definition thresholds_of :: "SmartFarmController \<Rightarrow> Thresholds" where
  "thresholds_of s =
     \<lparr>spec_temp_threshold = temp_threshold s, spec_temp_hysteresis = 2,
      spec_humidity_threshold = humidity_threshold s, spec_humidity_hysteresis = 10\<rparr>"

subsection \<open>Sample data\<close>

text \<open>A numbered log entry, for running the log on concrete input.\<close>

definition sample_entry :: "nat \<Rightarrow> SensorData" where
  "sample_entry n = \<lparr>timestamp = [], temperature = 20 + real n / 10, humidity = 50,
                      fan_status = even n, pump_status = False\<rparr>"

section \<open>Actuators: frame and idempotence\<close>

lemma control_fan_frame:
  "snd (control_fan b s) = s\<lparr>fan_running := b\<rparr>"
  by (cases b) (auto simp: control_fan_def)

lemma control_pump_frame:
  "snd (control_pump b s) = s\<lparr>pump_running := b\<rparr>"
  by (cases b) (auto simp: control_pump_def)

text \<open>
  C10. \<open>control_fan\<close> changes at most \<open>fan_running\<close> and \<open>control_pump\<close> at most
  \<open>pump_running\<close>: the other device's flag, both thresholds, the simulated
  environment (\<open>current_temp\<close>, \<open>current_humidity\<close>) and the log keep their values,
  for every command and every controller state.
\<close>

theorem control_frame:
  "pump_running (snd (control_fan b s)) = pump_running s
   \<and> temp_threshold (snd (control_fan b s)) = temp_threshold s
   \<and> humidity_threshold (snd (control_fan b s)) = humidity_threshold s
   \<and> current_temp (snd (control_fan b s)) = current_temp s
   \<and> current_humidity (snd (control_fan b s)) = current_humidity s
   \<and> data_log (snd (control_fan b s)) = data_log s
   \<and> fan_running (snd (control_pump b s)) = fan_running s
   \<and> temp_threshold (snd (control_pump b s)) = temp_threshold s
   \<and> humidity_threshold (snd (control_pump b s)) = humidity_threshold s
   \<and> current_temp (snd (control_pump b s)) = current_temp s
   \<and> current_humidity (snd (control_pump b s)) = current_humidity s
   \<and> data_log (snd (control_pump b s)) = data_log s"
  by (simp add: control_fan_frame control_pump_frame)

text \<open>
  C5. Commanding a device announces a transition exactly when the command differs from
  the device's flag. Hence the same desired state applied twice in a row announces (per
  changed device) on the first application only: the second application of either
  command, and of the pair, prints nothing and returns the state it was given; and a
  command equal to the current flag is a silent no-op.
\<close>

theorem control_idempotent:
  "fst (control_fan f s) = (if fan_running s = f then [] else [if f then Fan_ON else Fan_OFF])
   \<and> fst (control_pump p s) = (if pump_running s = p then [] else [if p then Pump_ON else Pump_OFF])
   \<and> control_fan f (snd (control_fan f s)) = ([], snd (control_fan f s))
   \<and> control_pump p (snd (control_pump p s)) = ([], snd (control_pump p s))
   \<and> (fan_running s = f \<longrightarrow> control_fan f s = ([], s))
   \<and> (pump_running s = p \<longrightarrow> control_pump p s = ([], s))
   \<and> (let s1 = snd (control_pump p (snd (control_fan f s)))
      in control_fan f s1 = ([], s1) \<and> control_pump p s1 = ([], s1))"
  by (cases f; cases p) (auto simp: control_fan_def control_pump_def Let_def)

theorem control_idempotent_witness:
  "fst (control_fan True init) = [Fan_ON]
   \<and> fst (control_pump True init) = [Pump_ON]
   \<and> control_fan True (snd (control_fan True init)) = ([], snd (control_fan True init))
   \<and> fan_running (init\<lparr>fan_running := True\<rparr>)
   \<and> control_fan True (init\<lparr>fan_running := True\<rparr>) = ([], init\<lparr>fan_running := True\<rparr>)
   \<and> \<not> pump_running init
   \<and> control_pump False init = ([], init)"
  using control_idempotent [where f = True and p = True and s = init]
    control_idempotent [where f = True and p = False and s = "init\<lparr>fan_running := True\<rparr>"]
    control_idempotent [where f = False and p = False and s = init]
  by (simp add: init_def)

section \<open>Decisions\<close>

lemma decisions_snd:
  "snd (make_control_decisions t h s) =
     s\<lparr>fan_running := (if t > temp_threshold s then True
                        else if t < temp_threshold s - 2 then False
                        else fan_running s),
       pump_running := (if h < humidity_threshold s then True
                        else if h > humidity_threshold s + 10 then False
                        else pump_running s)\<rparr>"
  unfolding make_control_decisions_def
  by (simp add: control_fan_frame control_pump_frame split_beta)


lemma decisions_thresholds [simp]:
  "temp_threshold (snd (make_control_decisions t h s)) = temp_threshold s"
  "humidity_threshold (snd (make_control_decisions t h s)) = humidity_threshold s"
  by (simp_all add: decisions_snd)




text \<open>
  C8. From the initial controller (thresholds 30 and 40, widths 2 and 10, fan and pump
  off) the readings (32.0, 35.0), (31.0, 45.0), (27.0, 52.0) give the actuator states
  (on, on), (on, on), (off, off), in that order.
\<close>

theorem decisions_scenario:
  "(let s1 = snd (make_control_decisions 32.0 35.0 init);
        s2 = snd (make_control_decisions 31.0 45.0 s1);
        s3 = snd (make_control_decisions 27.0 52.0 s2)
    in thresholds_of init = \<lparr>spec_temp_threshold = 30, spec_temp_hysteresis = 2,
                             spec_humidity_threshold = 40, spec_humidity_hysteresis = 10\<rparr>
     \<and> actuator_state init = \<lparr>fan_on = False, pump_on = False\<rparr>
     \<and> actuator_state s1 = \<lparr>fan_on = True, pump_on = True\<rparr>
     \<and> actuator_state s2 = \<lparr>fan_on = True, pump_on = True\<rparr>
     \<and> actuator_state s3 = \<lparr>fan_on = False, pump_on = False\<rparr>)"
  by (simp add: decisions_snd init_def actuator_state_def thresholds_of_def)

section \<open>Hysteresis over a run\<close>





section \<open>The bounded history log\<close>

lemma SensorData_eta:
  "\<lparr>timestamp = timestamp e, temperature = temperature e, humidity = humidity e,
    fan_status = fan_status e, pump_status = pump_status e\<rparr> = e"
  by (cases e) simp

lemma record_entry_log:
  "data_log (record_entry e s) =
     (if length (data_log s) \<ge> 100 then tl (data_log s @ [e]) else data_log s @ [e])"
  by (simp add: record_entry_def log_data_def control_fan_frame control_pump_frame Let_def
      SensorData_eta)

lemma last_100_step:
  fixes xs es :: "'a list"
  defines "k \<equiv> length xs - 100"
  shows "drop (length (drop k xs @ es) - 100) (drop k xs @ es)
           = drop (length (xs @ es) - 100) (xs @ es)"
proof (cases "length xs \<le> 100")
  case True
  then show ?thesis by (simp add: k_def)
next
  case False
  then have k: "k \<le> length xs" "length xs - k = 100"
      "length xs + length es - 100 = length es + k"
    by (simp_all add: k_def)
  have "drop (length (drop k xs @ es) - 100) (drop k xs @ es)
          = drop (length es) (drop k (xs @ es))"
    using k by simp
  also have "\<dots> = drop (length es + k) (xs @ es)"
    by (rule drop_drop)
  finally show ?thesis using k by simp
qed

lemma record_entry_drop:
  assumes "length (data_log s) \<le> 100"
  shows "data_log (record_entry e s)
           = drop (length (data_log s @ [e]) - 100) (data_log s @ [e])"
proof (cases "length (data_log s) = 100")
  case True
  have "tl (data_log s @ [e]) = drop (Suc 0) (data_log s @ [e])"
    by (simp only: drop_Suc drop_0)
  with True show ?thesis by (simp add: record_entry_log)
next
  case False
  with assms show ?thesis by (simp add: record_entry_log)
qed

lemma fold_record_entry_log:
  "length (data_log s) \<le> 100 \<Longrightarrow>
   data_log (fold record_entry es s) = drop (length (data_log s @ es) - 100) (data_log s @ es)"
proof (induction es arbitrary: s)
  case Nil
  then show ?case by simp
next
  case (Cons e es)
  let ?s1 = "record_entry e s"
  let ?xs = "data_log s @ [e]"
  have l1: "data_log ?s1 = drop (length ?xs - 100) ?xs"
    using Cons.prems by (rule record_entry_drop)
  have len1: "length (data_log ?s1) \<le> 100"
    using Cons.prems by (simp add: l1)
  have "data_log (fold record_entry es ?s1)
          = drop (length (data_log ?s1 @ es) - 100) (data_log ?s1 @ es)"
    using len1 by (rule Cons.IH)
  also have "\<dots> = drop (length (?xs @ es) - 100) (?xs @ es)"
    unfolding l1 by (rule last_100_step)
  finally show ?case by simp
qed

text \<open>
  C2. Starting from a log of at most 100 entries (the initial log is empty), after any
  sequence \<open>es\<close> of appended entries the log has at most 100 entries and consists of
  the last 100 of everything logged so far, in insertion order; in particular, from the
  empty log, after \<open>100 + k\<close> appends it is exactly the last 100 appended entries, the
  \<open>k\<close> oldest having been evicted.
\<close>

theorem log_keeps_last_100:
  assumes "length (data_log s) \<le> 100"
  shows "length (data_log (fold record_entry es s)) \<le> 100
     \<and> data_log (fold record_entry es s)
         = drop (length (data_log s @ es) - 100) (data_log s @ es)
     \<and> (data_log s = [] \<longrightarrow> (\<forall>k. length es = 100 + k \<longrightarrow>
           data_log (fold record_entry es s) = drop k es
           \<and> length (data_log (fold record_entry es s)) = 100))"
  using assms by (auto simp add: fold_record_entry_log)

theorem log_keeps_last_100_witness:
  "length (data_log init) \<le> 100
   \<and> data_log (fold record_entry (map sample_entry [0..<103]) init)
       = map sample_entry [3..<103]"
  using log_keeps_last_100 [where s = init and es = "map sample_entry [0..<103]"]
  by (simp add: init_def drop_map)

section \<open>Statistics\<close>

lemma fold_add_sum_list:
  "fold (\<lambda>x acc. acc + x) xs (a::'a::comm_monoid_add) = a + sum_list xs"
  by (induction xs arbitrary: a) (simp_all add: add.assoc)

lemma py_sum_sum_list: "py_sum xs = sum_list (xs::'a::comm_monoid_add list)"
  by (simp add: py_sum_def fold_add_sum_list)

lemma py_sum_count: "py_sum (map (\<lambda>d. 1::int) xs) = int (length xs)"
  by (simp add: py_sum_sum_list sum_list_triv)

lemma py_max_Max: "xs \<noteq> [] \<Longrightarrow> py_max xs = Inr (Max (set xs))"
proof -
  have eq: "(\<lambda>y m. if y > m then y else m) = (max :: real \<Rightarrow> real \<Rightarrow> real)"
    by (intro ext) (simp add: max_def)
  show "xs \<noteq> [] \<Longrightarrow> py_max xs = Inr (Max (set xs))"
    unfolding py_max_def eq
    by (cases xs) (simp_all only: list.case Max.set_eq_fold simp_thms)
qed

lemma py_min_Min: "xs \<noteq> [] \<Longrightarrow> py_min xs = Inr (Min (set xs))"
proof -
  have eq: "(\<lambda>y m. if y < m then y else m) = (min :: real \<Rightarrow> real \<Rightarrow> real)"
    by (intro ext) (auto simp add: min_def)
  show "xs \<noteq> [] \<Longrightarrow> py_min xs = Inr (Min (set xs))"
    unfolding py_min_def eq
    by (cases xs) (simp_all only: list.case Min.set_eq_fold simp_thms)
qed

lemma py_truediv_length:
  "xs \<noteq> [] \<Longrightarrow> py_truediv a (real (length (map f xs))) = Inr (a / real (length xs))"
  by (simp add: py_truediv_def)

lemma and_then_Inr: "and_then (Inr v) f = f v"
  by (simp add: and_then_def)

lemma get_statistics_nonempty:
  assumes "data_log s \<noteq> []"
  shows "get_statistics s =
     Inr [''avg_temp'' \<mapsto> PyFloat (py_round1
             (sum_list (map temperature (data_log s)) / real (length (data_log s)))),
          ''max_temp'' \<mapsto> PyFloat (Max (temperature ` set (data_log s))),
          ''min_temp'' \<mapsto> PyFloat (Min (temperature ` set (data_log s))),
          ''avg_humidity'' \<mapsto> PyFloat (py_round1
             (sum_list (map humidity (data_log s)) / real (length (data_log s)))),
          ''max_humidity'' \<mapsto> PyFloat (Max (humidity ` set (data_log s))),
          ''min_humidity'' \<mapsto> PyFloat (Min (humidity ` set (data_log s))),
          ''fan_runtime'' \<mapsto> PyInt (int (length (filter fan_status (data_log s)))),
          ''pump_runtime'' \<mapsto> PyInt (int (length (filter pump_status (data_log s)))),
          ''total_records'' \<mapsto> PyInt (int (length (data_log s)))]"
proof -
  have ne: "map temperature (data_log s) \<noteq> []" "map humidity (data_log s) \<noteq> []"
    using assms by simp_all
  show ?thesis
    unfolding get_statistics_def Let_def
    using assms
    by (simp only: if_False py_truediv_length [OF assms]
        py_max_Max [OF ne(1)] py_max_Max [OF ne(2)] py_min_Min [OF ne(1)] py_min_Min [OF ne(2)]
        and_then_Inr py_sum_count py_sum_sum_list [where 'a = real] set_map)
qed

lemma get_statistics_never_raises: "\<exists>stats. get_statistics s = Inr stats"
proof (cases "data_log s = []")
  case True
  then show ?thesis by (simp add: get_statistics_def)
next
  case False
  then show ?thesis by (blast dest: get_statistics_nonempty)
qed

text \<open>
  C6. On the empty history \<open>get_statistics\<close> returns, without raising, the empty
  dictionary: a result with no key at all, so no statistic, zero or otherwise, is
  reported.
\<close>

theorem get_statistics_no_data:
  "data_log s = [] \<Longrightarrow> get_statistics s = Inr Map.empty"
  by (simp add: get_statistics_def)

theorem get_statistics_no_data_witness:
  "data_log init = [] \<and> get_statistics init = Inr Map.empty"
  using get_statistics_no_data [of init] by (simp add: init_def)



text \<open>The same log, evaluated from the definitions alone.\<close>

lemma get_statistics_example: 
  "get_statistics (init\<lparr>data_log := map sample_entry [0, 1, 3]\<rparr>) =
     Inr [''avg_temp'' \<mapsto> PyFloat 20.1, ''max_temp'' \<mapsto> PyFloat 20.3,
          ''min_temp'' \<mapsto> PyFloat 20, ''avg_humidity'' \<mapsto> PyFloat 50,
          ''max_humidity'' \<mapsto> PyFloat 50, ''min_humidity'' \<mapsto> PyFloat 50,
          ''fan_runtime'' \<mapsto> PyInt 1, ''pump_runtime'' \<mapsto> PyInt 0,
          ''total_records'' \<mapsto> PyInt 3]"
  by (simp add: get_statistics_def sample_entry_def py_sum_def py_max_def py_min_def
      py_truediv_def and_then_def py_round1_def round_half_even_def Let_def)

section \<open>Rounding and the simulated sensors\<close>

lemma round_half_even_cases:
  "round_half_even y = \<lfloor>y\<rfloor> \<and> y - of_int \<lfloor>y\<rfloor> \<le> 1 / 2
   \<or> round_half_even y = \<lfloor>y\<rfloor> + 1 \<and> y - of_int \<lfloor>y\<rfloor> \<ge> 1 / 2"
  unfolding round_half_even_def Let_def by auto

lemma round_half_even_near: "\<bar>of_int (round_half_even y) - y\<bar> \<le> 1 / 2"
proof -
  have "of_int \<lfloor>y\<rfloor> \<le> y" "y < of_int \<lfloor>y\<rfloor> + 1" by linarith+
  with round_half_even_cases [of y] show ?thesis by auto
qed



lemma py_round1_near: "\<bar>py_round1 x - x\<bar> \<le> 1 / 20"
  using round_half_even_near [of "x * 10"] unfolding py_round1_def
  by (simp add: abs_le_iff field_simps)





lemma read_sensors_example:
  "read_sensors 3 8 init
     = ((25.3, 45.8), init\<lparr>current_temp := 25.3, current_humidity := 45.8\<rparr>)"
  by (simp add: read_sensors_def init_def py_round1_def round_half_even_def Let_def)

section \<open>Changing the settings\<close>



text \<open>
  A humidity answer that is not a number is reported as invalid after the temperature
  threshold has already been assigned.
\<close>

lemma change_settings_partial_update:
  "change_settings (Number 35) Not_a_number init
     = (Invalid_value, init\<lparr>temp_threshold := 35\<rparr>)"
  by (simp add: change_settings_def)

end
